theory Spec2Isabelle
  imports Main
begin

section \<open>Errors (errors.py)\<close>

text \<open>
  The exception classes of \<^verbatim>\<open>errors.py\<close>, with the constructor arguments the
  source passes. \<^verbatim>\<open>xEntityStateError(current_state, target_state, reason)\<close>
  keeps all three in its \<^verbatim>\<open>details\<close>. \<open>ValueError\<close> and \<open>KeyError\<close> are
  Python's own; \<open>StoreError\<close> stands for whatever the external data container raises.
\<close>

datatype error =
    xEntityValidationError string
  | xEntityStateError string string string
  | xEntityActionError string string
  | ValueError string
  | KeyError string
  | StoreError string

section \<open>Lifecycle states and metadata (model.py)\<close>

text \<open>\<^verbatim>\<open>class xEntityState\<close>: the states are plain strings.\<close>

definition DRAFT :: string where "DRAFT = ''draft''"
definition VALIDATED :: string where "VALIDATED = ''validated''"
definition COMMITTED :: string where "COMMITTED = ''committed''"
definition ARCHIVED :: string where "ARCHIVED = ''archived''"

text \<open>
  What one run of \<^verbatim>\<open>xEntityMetadata.__init__\<close> (or one evaluation of the defaults
  of \<^verbatim>\<open>from_dict\<close>) draws from its environment: \<^verbatim>\<open>str(uuid.uuid4())\<close> and two
  successive readings of \<^verbatim>\<open>datetime.now()\<close>. Timestamps are points on the integer
  time line.
\<close>

record drawn =
  drawn_uuid :: string
  drawn_now1 :: int
  drawn_now2 :: int

record 'v xEntityMetadata =
  md_id :: string
  md_type :: string
  md_state :: string
  md_version :: int
  md_created_at :: int
  md_updated_at :: int
  md_tags :: "string list"
  md_metadata :: "(string \<times> 'v) list"

text \<open>\<^verbatim>\<open>entity_type or "entity"\<close>: \<open>None\<close> and the empty string both give the default.\<close>

definition xEntityMetadata_init :: "string option \<Rightarrow> drawn \<Rightarrow> 'v xEntityMetadata" where
  "xEntityMetadata_init entity_type dr =
     \<lparr> md_id = drawn_uuid dr,
       md_type = (case entity_type of None \<Rightarrow> ''entity''
                  | Some s \<Rightarrow> if s = [] then ''entity'' else s),
       md_state = DRAFT,
       md_version = 1,
       md_created_at = drawn_now1 dr,
       md_updated_at = drawn_now2 dr,
       md_tags = [],
       md_metadata = [] \<rparr>"

text \<open>
  The dictionary \<^verbatim>\<open>to_dict\<close> produces and \<^verbatim>\<open>from_dict\<close> reads: every key may be
  absent. \<open>Iso t\<close> is the ISO-8601 text \<^verbatim>\<open>isoformat()\<close> renders for the instant
  \<open>t\<close>, which \<^verbatim>\<open>datetime.fromisoformat\<close> reads back.
\<close>

datatype iso = Iso int

fun isoformat :: "int \<Rightarrow> iso" where
  "isoformat t = Iso t"

fun fromisoformat :: "iso \<Rightarrow> int" where
  "fromisoformat (Iso t) = t"

record 'v metadata_dict =
  k_id :: "string option"
  k_type :: "string option"
  k_state :: "string option"
  k_version :: "int option"
  k_created_at :: "iso option"
  k_updated_at :: "iso option"
  k_tags :: "string list option"
  k_metadata :: "(string \<times> 'v) list option"

definition xEntityMetadata_to_dict :: "'v xEntityMetadata \<Rightarrow> 'v metadata_dict" where
  "xEntityMetadata_to_dict m =
     \<lparr> k_id = Some (md_id m),
       k_type = Some (md_type m),
       k_state = Some (md_state m),
       k_version = Some (md_version m),
       k_created_at = Some (isoformat (md_created_at m)),
       k_updated_at = Some (isoformat (md_updated_at m)),
       k_tags = Some (md_tags m),
       k_metadata = Some (md_metadata m) \<rparr>"

text \<open>\<^verbatim>\<open>data.get(key, default)\<close>.\<close>

fun dict_get :: "'a option \<Rightarrow> 'a \<Rightarrow> 'a" where
  "dict_get None d = d"
| "dict_get (Some x) d = x"

text \<open>
  \<^verbatim>\<open>xEntityMetadata.from_dict\<close> overwrites every attribute, from the dictionary where
  the key is present and from a default otherwise; the defaults are drawn afresh.
\<close>

definition xEntityMetadata_from_dict ::
  "'v xEntityMetadata \<Rightarrow> 'v metadata_dict \<Rightarrow> drawn \<Rightarrow> 'v xEntityMetadata" where
  "xEntityMetadata_from_dict m d dr =
     m\<lparr> md_id := dict_get (k_id d) (drawn_uuid dr),
        md_type := dict_get (k_type d) ''entity'',
        md_state := dict_get (k_state d) DRAFT,
        md_version := dict_get (k_version d) 1,
        md_created_at := fromisoformat (dict_get (k_created_at d) (isoformat (drawn_now1 dr))),
        md_updated_at := fromisoformat (dict_get (k_updated_at d) (isoformat (drawn_now2 dr))),
        md_tags := dict_get (k_tags d) [],
        md_metadata := dict_get (k_metadata d) [] \<rparr>"

text \<open>\<^verbatim>\<open>update_version\<close>; \<open>now\<close> is the reading of \<^verbatim>\<open>datetime.now()\<close> it takes.\<close>

definition update_version :: "int \<Rightarrow> 'v xEntityMetadata \<Rightarrow> 'v xEntityMetadata" where
  "update_version now m = m\<lparr> md_version := md_version m + 1, md_updated_at := now \<rparr>"

section \<open>The external collaborators\<close>

text \<open>
  \<^verbatim>\<open>xData\<close> (the path-addressed container) and \<^verbatim>\<open>xSchema\<close> live outside this
  package; the entity only calls them. Their operations are parameters of the model:
  \<open>'d\<close> is the container, \<open>'n\<close> the plain mapping it exports, \<open>'v\<close> a field value.
  A call that raises leaves the container as it was and yields the error.
\<close>

record ('d, 'n, 'v) xData_ops =
  xData_new :: "'n \<Rightarrow> 'd"
  native_empty :: 'n
  xData_set :: "'d \<Rightarrow> string \<Rightarrow> 'v \<Rightarrow> error + 'd"
  xData_delete :: "'d \<Rightarrow> string \<Rightarrow> error + 'd"
  xData_to_native :: "'d \<Rightarrow> 'n"

record 'n xSchema =
  schema_value :: "string option"
  schema_version :: "string option"
  validate_data :: "'n \<Rightarrow> bool"

section \<open>The internal entity (model.py, class aEntity)\<close>

record performance_stats =
  access_count :: nat
  validation_count :: nat
  cache_hits :: nat
  cache_misses :: nat

record ('d, 'n, 'v, 'a) aEntity =
  e_metadata :: "'v xEntityMetadata"
  e_schema :: "'n xSchema option"
  e_data :: 'd
  e_actions :: "(string \<times> 'a) list"
  e_cache :: "(string \<times> 'v) list"
  e_schema_cache :: "'n option"
  e_performance_stats :: performance_stats

text \<open>
  \<^verbatim>\<open>aEntity.__init__\<close> with \<^verbatim>\<open>_init_data\<close>: \<open>None\<close> gives \<^verbatim>\<open>xData({})\<close>, a
  dictionary is wrapped, a container is taken as it is.
\<close>

datatype ('d, 'n) data_arg = NoData | DictData 'n | ContainerData 'd

fun init_data :: "('d, 'n, 'v) xData_ops \<Rightarrow> ('d, 'n) data_arg \<Rightarrow> 'd" where
  "init_data ops NoData = xData_new ops (native_empty ops)"
| "init_data ops (DictData n) = xData_new ops n"
| "init_data ops (ContainerData d) = d"

definition aEntity_init ::
  "('d, 'n, 'v) xData_ops \<Rightarrow> 'n xSchema option \<Rightarrow> ('d, 'n) data_arg \<Rightarrow> string option \<Rightarrow>
   drawn \<Rightarrow> ('d, 'n, 'v, 'a) aEntity" where
  "aEntity_init ops schema dat entity_type dr =
     \<lparr> e_metadata = xEntityMetadata_init entity_type dr,
       e_schema = schema,
       e_data = init_data ops dat,
       e_actions = [],
       e_cache = [],
       e_schema_cache = None,
       e_performance_stats =
         \<lparr> access_count = 0, validation_count = 0, cache_hits = 0, cache_misses = 0 \<rparr> \<rparr>"

text \<open>The per-instance table \<^verbatim>\<open>_state_transitions\<close>, a dictionary in insertion order.\<close>

definition state_transitions :: "(string \<times> string list) list" where
  "state_transitions =
     [(DRAFT, [VALIDATED, ARCHIVED]),
      (VALIDATED, [COMMITTED, DRAFT, ARCHIVED]),
      (COMMITTED, [ARCHIVED]),
      (ARCHIVED, [DRAFT])]"

definition aEntity_clear_cache :: "('d, 'n, 'v, 'a) aEntity \<Rightarrow> ('d, 'n, 'v, 'a) aEntity" where
  "aEntity_clear_cache e = e\<lparr> e_cache := [], e_schema_cache := None \<rparr>"

text \<open>
  A method that raises is \<open>Inl (error, entity as the call left it)\<close>; one that returns
  is \<open>Inr\<close> of the entity it leaves (with the returned value, where there is one).
\<close>

definition aEntity_set ::
  "('d, 'n, 'v) xData_ops \<Rightarrow> int \<Rightarrow> ('d, 'n, 'v, 'a) aEntity \<Rightarrow> string \<Rightarrow> 'v \<Rightarrow>
   (error \<times> ('d, 'n, 'v, 'a) aEntity) + ('d, 'n, 'v, 'a) aEntity" where
  "aEntity_set ops now e path val =
     (case xData_set ops (e_data e) path val of
        Inl err \<Rightarrow> Inl (err, e)
      | Inr d \<Rightarrow>
          Inr (aEntity_clear_cache
                 (e\<lparr> e_data := d, e_metadata := update_version now (e_metadata e) \<rparr>)))"


text \<open>
  \<^verbatim>\<open>_update\<close>: the loop over \<^verbatim>\<open>updates.items()\<close>. \<open>nows i\<close> is the clock reading
  the \<open>i\<close>-th call of \<^verbatim>\<open>_set\<close> takes. An exception leaves the loop at once.
\<close>

fun aEntity_update ::
  "('d, 'n, 'v) xData_ops \<Rightarrow> (nat \<Rightarrow> int) \<Rightarrow> ('d, 'n, 'v, 'a) aEntity \<Rightarrow> (string \<times> 'v) list \<Rightarrow>
   (error \<times> ('d, 'n, 'v, 'a) aEntity) + ('d, 'n, 'v, 'a) aEntity" where
  "aEntity_update ops nows e [] = Inr e"
| "aEntity_update ops nows e ((path, val) # updates) =
     (case aEntity_set ops (nows 0) e path val of
        Inl x \<Rightarrow> Inl x
      | Inr e' \<Rightarrow> aEntity_update ops (\<lambda>i. nows (Suc i)) e' updates)"

text \<open>
  \<^verbatim>\<open>_validate\<close> counts the call, then answers \<open>True\<close> without a schema and asks the
  schema otherwise. It returns the answer and the entity with the counter advanced.
\<close>

definition aEntity_validate ::
  "('d, 'n, 'v) xData_ops \<Rightarrow> ('d, 'n, 'v, 'a) aEntity \<Rightarrow> bool \<times> ('d, 'n, 'v, 'a) aEntity" where
  "aEntity_validate ops e =
     (let e1 = e\<lparr> e_performance_stats :=
                   (e_performance_stats e)\<lparr> validation_count :=
                      validation_count (e_performance_stats e) + 1 \<rparr> \<rparr>
      in case e_schema e1 of
           None \<Rightarrow> (True, e1)
         | Some s \<Rightarrow> (validate_data s (xData_to_native ops (e_data e1)), e1))"

definition aEntity_can_transition_to :: "('d, 'n, 'v, 'a) aEntity \<Rightarrow> string \<Rightarrow> bool" where
  "aEntity_can_transition_to e target_state =
     (let current_state = md_state (e_metadata e);
          allowed_states = dict_get (map_of state_transitions current_state) []
      in target_state \<in> set allowed_states)"

definition aEntity_transition_to ::
  "('d, 'n, 'v) xData_ops \<Rightarrow> int \<Rightarrow> ('d, 'n, 'v, 'a) aEntity \<Rightarrow> string \<Rightarrow>
   (error \<times> ('d, 'n, 'v, 'a) aEntity) + ('d, 'n, 'v, 'a) aEntity" where
  "aEntity_transition_to ops now e target_state =
     (if \<not> aEntity_can_transition_to e target_state then
        Inl (xEntityStateError (md_state (e_metadata e)) target_state ''Transition not allowed'', e)
      else if target_state = VALIDATED then
        (case aEntity_validate ops e of
           (False, e1) \<Rightarrow>
             Inl (xEntityStateError (md_state (e_metadata e1)) target_state ''Validation failed'', e1)
         | (True, e1) \<Rightarrow>
             Inr (e1\<lparr> e_metadata :=
                       update_version now ((e_metadata e1)\<lparr> md_state := target_state \<rparr>) \<rparr>))
      else
        Inr (e\<lparr> e_metadata :=
                  update_version now ((e_metadata e)\<lparr> md_state := target_state \<rparr>) \<rparr>))"

text \<open>
  The dictionary \<^verbatim>\<open>_to_dict\<close> builds: \<^verbatim>\<open>_metadata\<close> and \<^verbatim>\<open>_data\<close> always,
  \<^verbatim>\<open>_schema\<close> (its \<^verbatim>\<open>uri\<close> and \<^verbatim>\<open>version\<close>) when there is a schema,
  \<^verbatim>\<open>_actions\<close> when the action table is not empty. An action stands for its own
  exported form. \<^verbatim>\<open>_from_dict\<close> reads the first two keys only.
\<close>

record ('n, 'v, 'a) entity_dict =
  k_metadata_block :: "'v metadata_dict option"
  k_data_block :: "'n option"
  k_schema_block :: "(string option \<times> string option) option"
  k_actions_block :: "(string \<times> 'a) list option"

definition aEntity_to_dict ::
  "('d, 'n, 'v) xData_ops \<Rightarrow> ('d, 'n, 'v, 'a) aEntity \<Rightarrow> ('n, 'v, 'a) entity_dict" where
  "aEntity_to_dict ops e =
     \<lparr> k_metadata_block = Some (xEntityMetadata_to_dict (e_metadata e)),
       k_data_block = Some (xData_to_native ops (e_data e)),
       k_schema_block =
         (case e_schema e of None \<Rightarrow> None
          | Some s \<Rightarrow> Some (schema_value s, schema_version s)),
       k_actions_block = (if e_actions e = [] then None else Some (e_actions e)) \<rparr>"

definition aEntity_from_dict ::
  "('d, 'n, 'v) xData_ops \<Rightarrow> ('d, 'n, 'v, 'a) aEntity \<Rightarrow> ('n, 'v, 'a) entity_dict \<Rightarrow> drawn \<Rightarrow>
   ('d, 'n, 'v, 'a) aEntity" where
  "aEntity_from_dict ops e d dr =
     (let e1 = (case k_metadata_block d of
                  None \<Rightarrow> e
                | Some md \<Rightarrow> e\<lparr> e_metadata := xEntityMetadata_from_dict (e_metadata e) md dr \<rparr>)
      in case k_data_block d of
           None \<Rightarrow> e1
         | Some n \<Rightarrow> e1\<lparr> e_data := xData_new ops n \<rparr>)"

text \<open>
  \<^verbatim>\<open>aEntityFactory.from_dict\<close>: a fresh \<^verbatim>\<open>aEntity(schema=schema)\<close> (drawing
  \<open>dr_init\<close>), then \<^verbatim>\<open>_from_dict\<close> (drawing \<open>dr_load\<close> for its defaults).
\<close>

definition aEntityFactory_from_dict ::
  "('d, 'n, 'v) xData_ops \<Rightarrow> ('n, 'v, 'a) entity_dict \<Rightarrow> 'n xSchema option \<Rightarrow> drawn \<Rightarrow> drawn \<Rightarrow>
   ('d, 'n, 'v, 'a) aEntity" where
  "aEntityFactory_from_dict ops d schema dr_init dr_load =
     aEntity_from_dict ops (aEntity_init ops schema NoData None dr_init) d dr_load"

text \<open>
  \<^verbatim>\<open>_execute_action\<close>. The three ways of calling the action found (its
  \<^verbatim>\<open>_action_instance\<close>, its \<^verbatim>\<open>execute\<close>, the function itself) all hand control
  to code outside this package: \<open>call\<close> is that code, given the action, the entity and the
  keyword arguments, and answering with an error or a result and the entity it leaves.
\<close>

definition aEntity_execute_action ::
  "('a \<Rightarrow> ('d, 'n, 'v, 'a) aEntity \<Rightarrow> 'k \<Rightarrow>
      (error \<times> ('d, 'n, 'v, 'a) aEntity) + ('r \<times> ('d, 'n, 'v, 'a) aEntity)) \<Rightarrow>
   ('d, 'n, 'v, 'a) aEntity \<Rightarrow> string \<Rightarrow> 'k \<Rightarrow>
   (error \<times> ('d, 'n, 'v, 'a) aEntity) + ('r \<times> ('d, 'n, 'v, 'a) aEntity)" where
  "aEntity_execute_action call e action_name kwargs =
     (case map_of (e_actions e) action_name of
        None \<Rightarrow> Inl (xEntityActionError action_name ''Action not registered'', e)
      | Some action \<Rightarrow> call action e kwargs)"

section \<open>The facade (facade.py, class xEntity)\<close>

text \<open>
  The facade holds the internal entity in \<^verbatim>\<open>_internal\<close> and forwards to it; its other
  slots (\<^verbatim>\<open>_hash_cache\<close>, \<^verbatim>\<open>_type_cache\<close>, \<^verbatim>\<open>_cache\<close>) carry no entity state, and
  \<^verbatim>\<open>measure_operation\<close> only times the call. A facade is its internal entity here.
\<close>

definition xEntity_from_dict ::
  "('d, 'n, 'v) xData_ops \<Rightarrow> ('n, 'v, 'a) entity_dict \<Rightarrow> 'n xSchema option \<Rightarrow> drawn \<Rightarrow> drawn \<Rightarrow>
   ('d, 'n, 'v, 'a) aEntity" where
  "xEntity_from_dict ops d schema dr_init dr_load =
     aEntityFactory_from_dict ops d schema dr_init dr_load"

definition xEntity_to_dict ::
  "('d, 'n, 'v) xData_ops \<Rightarrow> ('d, 'n, 'v, 'a) aEntity \<Rightarrow> ('n, 'v, 'a) entity_dict" where
  "xEntity_to_dict ops e = aEntity_to_dict ops e"

definition xEntity_set ::
  "('d, 'n, 'v) xData_ops \<Rightarrow> int \<Rightarrow> ('d, 'n, 'v, 'a) aEntity \<Rightarrow> string \<Rightarrow> 'v \<Rightarrow>
   (error \<times> ('d, 'n, 'v, 'a) aEntity) + ('d, 'n, 'v, 'a) aEntity" where
  "xEntity_set ops now e path val = aEntity_set ops now e path val"


definition xEntity_update ::
  "('d, 'n, 'v) xData_ops \<Rightarrow> (nat \<Rightarrow> int) \<Rightarrow> ('d, 'n, 'v, 'a) aEntity \<Rightarrow> (string \<times> 'v) list \<Rightarrow>
   (error \<times> ('d, 'n, 'v, 'a) aEntity) + ('d, 'n, 'v, 'a) aEntity" where
  "xEntity_update ops nows e updates = aEntity_update ops nows e updates"

definition xEntity_validate ::
  "('d, 'n, 'v) xData_ops \<Rightarrow> ('d, 'n, 'v, 'a) aEntity \<Rightarrow> bool \<times> ('d, 'n, 'v, 'a) aEntity" where
  "xEntity_validate ops e = aEntity_validate ops e"

definition xEntity_validate_or_raise ::
  "('d, 'n, 'v) xData_ops \<Rightarrow> ('d, 'n, 'v, 'a) aEntity \<Rightarrow>
   (error \<times> ('d, 'n, 'v, 'a) aEntity) + ('d, 'n, 'v, 'a) aEntity" where
  "xEntity_validate_or_raise ops e =
     (case xEntity_validate ops e of
        (False, e1) \<Rightarrow> Inl (xEntityValidationError ''Entity validation failed'', e1)
      | (True, e1) \<Rightarrow> Inr e1)"

definition xEntity_execute_action ::
  "('a \<Rightarrow> ('d, 'n, 'v, 'a) aEntity \<Rightarrow> 'k \<Rightarrow>
      (error \<times> ('d, 'n, 'v, 'a) aEntity) + ('r \<times> ('d, 'n, 'v, 'a) aEntity)) \<Rightarrow>
   ('d, 'n, 'v, 'a) aEntity \<Rightarrow> string \<Rightarrow> 'k \<Rightarrow>
   (error \<times> ('d, 'n, 'v, 'a) aEntity) + ('r \<times> ('d, 'n, 'v, 'a) aEntity)" where
  "xEntity_execute_action call e action_name kwargs =
     aEntity_execute_action call e action_name kwargs"

text \<open>
  The lifecycle methods \<^verbatim>\<open>to_validated\<close>, \<^verbatim>\<open>commit\<close> and \<^verbatim>\<open>archive\<close>, which
  forward to \<^verbatim>\<open>_transition_to\<close>.
\<close>

definition xEntity_to_validated ::
  "('d, 'n, 'v) xData_ops \<Rightarrow> int \<Rightarrow> ('d, 'n, 'v, 'a) aEntity \<Rightarrow>
   (error \<times> ('d, 'n, 'v, 'a) aEntity) + ('d, 'n, 'v, 'a) aEntity" where
  "xEntity_to_validated ops now e = aEntity_transition_to ops now e VALIDATED"

definition xEntity_commit ::
  "('d, 'n, 'v) xData_ops \<Rightarrow> int \<Rightarrow> ('d, 'n, 'v, 'a) aEntity \<Rightarrow>
   (error \<times> ('d, 'n, 'v, 'a) aEntity) + ('d, 'n, 'v, 'a) aEntity" where
  "xEntity_commit ops now e = aEntity_transition_to ops now e COMMITTED"

definition xEntity_archive ::
  "('d, 'n, 'v) xData_ops \<Rightarrow> int \<Rightarrow> ('d, 'n, 'v, 'a) aEntity \<Rightarrow>
   (error \<times> ('d, 'n, 'v, 'a) aEntity) + ('d, 'n, 'v, 'a) aEntity" where
  "xEntity_archive ops now e = aEntity_transition_to ops now e ARCHIVED"

text \<open>
  \<^verbatim>\<open>copy\<close>: export, rebuild through \<^verbatim>\<open>from_dict\<close>, then assign copies of the tag
  list and of the metadata mapping. The schema handed to \<^verbatim>\<open>from_dict\<close> is what the
  facade's own attribute \<^verbatim>\<open>self.schema\<close> reads; the synthesising metaclass may have
  replaced that attribute by a slot reader, so the value read, \<open>self_schema\<close>, is an
  argument here.
\<close>

definition xEntity_copy ::
  "('d, 'n, 'v) xData_ops \<Rightarrow> 'n xSchema option \<Rightarrow> ('d, 'n, 'v, 'a) aEntity \<Rightarrow> drawn \<Rightarrow> drawn \<Rightarrow>
   ('d, 'n, 'v, 'a) aEntity" where
  "xEntity_copy ops self_schema e dr_init dr_load =
     (let data = xEntity_to_dict ops e;
          entity = xEntity_from_dict ops data self_schema dr_init dr_load
      in entity\<lparr> e_metadata :=
                   (e_metadata entity)\<lparr> md_tags := md_tags (e_metadata e),
                                        md_metadata := md_metadata (e_metadata e) \<rparr> \<rparr>)"

section \<open>The entity cache (facade.py, class xEntityCache)\<close>

text \<open>
  \<^verbatim>\<open>OrderedDict\<close>: the entries in order, oldest first. Assigning to a key that is
  present replaces its value in place, assigning to a new key appends;
  \<^verbatim>\<open>move_to_end\<close> and \<^verbatim>\<open>popitem(last=False)\<close> raise \<open>KeyError\<close> on a missing key
  and on an empty dictionary.
\<close>

definition od_contains :: "(string \<times> 'v) list \<Rightarrow> string \<Rightarrow> bool" where
  "od_contains od key = (key \<in> set (map fst od))"

definition od_setitem :: "(string \<times> 'v) list \<Rightarrow> string \<Rightarrow> 'v \<Rightarrow> (string \<times> 'v) list" where
  "od_setitem od key val =
     (if od_contains od key then map (\<lambda>kv. if fst kv = key then (key, val) else kv) od
      else od @ [(key, val)])"

definition od_move_to_end :: "(string \<times> 'v) list \<Rightarrow> string \<Rightarrow> error + (string \<times> 'v) list" where
  "od_move_to_end od key =
     (case map_of od key of
        None \<Rightarrow> Inl (KeyError key)
      | Some val \<Rightarrow> Inr (filter (\<lambda>kv. fst kv \<noteq> key) od @ [(key, val)]))"

definition od_popitem_first :: "(string \<times> 'v) list \<Rightarrow> error + (string \<times> 'v) list" where
  "od_popitem_first od =
     (case od of
        [] \<Rightarrow> Inl (KeyError ''dictionary is empty'')
      | kv # rest \<Rightarrow> Inr rest)"

definition od_getitem :: "(string \<times> 'v) list \<Rightarrow> string \<Rightarrow> error + 'v" where
  "od_getitem od key =
     (case map_of od key of None \<Rightarrow> Inl (KeyError key) | Some val \<Rightarrow> Inr val)"

text \<open>The lock only serialises callers; it is not part of the state.\<close>

record 'v xEntityCache =
  c_cache :: "(string \<times> 'v) list"
  c_max_size :: int
  c_hit_count :: nat
  c_miss_count :: nat

definition xEntityCache_init :: "int \<Rightarrow> 'v xEntityCache" where
  "xEntityCache_init max_size =
     \<lparr> c_cache = [], c_max_size = max_size, c_hit_count = 0, c_miss_count = 0 \<rparr>"

text \<open>
  \<^verbatim>\<open>_get_impl\<close> returns the value found (\<open>Some\<close>) or \<open>None\<close>, with the cache as the
  call leaves it.
\<close>

definition xEntityCache_get_impl ::
  "'v xEntityCache \<Rightarrow> string \<Rightarrow> (error \<times> 'v xEntityCache) + ('v option \<times> 'v xEntityCache)" where
  "xEntityCache_get_impl c key =
     (if od_contains (c_cache c) key then
        (let c1 = c\<lparr> c_hit_count := c_hit_count c + 1 \<rparr>
         in case od_move_to_end (c_cache c1) key of
              Inl err \<Rightarrow> Inl (err, c1)
            | Inr od \<Rightarrow>
                (let c2 = c1\<lparr> c_cache := od \<rparr>
                 in case od_getitem (c_cache c2) key of
                      Inl err \<Rightarrow> Inl (err, c2)
                    | Inr val \<Rightarrow> Inr (Some val, c2)))
      else Inr (None, c\<lparr> c_miss_count := c_miss_count c + 1 \<rparr>))"

definition xEntityCache_put_impl ::
  "'v xEntityCache \<Rightarrow> string \<Rightarrow> 'v \<Rightarrow> (error \<times> 'v xEntityCache) + 'v xEntityCache" where
  "xEntityCache_put_impl c key val =
     (let c1 = c\<lparr> c_cache := od_setitem (c_cache c) key val \<rparr>
      in case od_move_to_end (c_cache c1) key of
           Inl err \<Rightarrow> Inl (err, c1)
         | Inr od \<Rightarrow>
             (let c2 = c1\<lparr> c_cache := od \<rparr>
              in if int (length (c_cache c2)) > c_max_size c2 then
                   (case od_popitem_first (c_cache c2) of
                      Inl err \<Rightarrow> Inl (err, c2)
                    | Inr od' \<Rightarrow> Inr (c2\<lparr> c_cache := od' \<rparr>))
                 else Inr c2))"

text \<open>\<^verbatim>\<open>get\<close> and \<^verbatim>\<open>put\<close> take the lock, when there is one, around the same code.\<close>

definition xEntityCache_get ::
  "'v xEntityCache \<Rightarrow> string \<Rightarrow> (error \<times> 'v xEntityCache) + ('v option \<times> 'v xEntityCache)" where
  "xEntityCache_get c key = xEntityCache_get_impl c key"

definition xEntityCache_put ::
  "'v xEntityCache \<Rightarrow> string \<Rightarrow> 'v \<Rightarrow> (error \<times> 'v xEntityCache) + 'v xEntityCache" where
  "xEntityCache_put c key val = xEntityCache_put_impl c key val"

section \<open>Synthesised field accessors (metaclass.py)\<close>

text \<open>
  \<^verbatim>\<open>PropertyInfo\<close>: the field's name, its schema (of which the setters use
  \<^verbatim>\<open>validate(value)\<close> only) and its default. \<^verbatim>\<open>xEntityConfig\<close>: the one switch the
  setters read.
\<close>

record 'v PropertyInfo =
  prop_name :: string
  prop_schema :: "('v \<Rightarrow> bool) option"
  prop_default :: "'v option"

record xEntityConfig =
  enable_validation :: bool

text \<open>
  \<^verbatim>\<open>PerformanceModeMetaclass._create_direct_property\<close>, on an instance that has a
  \<^verbatim>\<open>__dict__\<close> (an instance of a class the user declares, as \<^verbatim>\<open>UserEntity\<close> in
  \<^verbatim>\<open>demo_user_entity.py\<close>): its attributes are a map from attribute name to value.
  (On a host with \<^verbatim>\<open>__slots__\<close> and no \<^verbatim>\<open>__dict__\<close>, \<^verbatim>\<open>setattr\<close> raises
  \<^verbatim>\<open>AttributeError\<close> instead; such hosts are not modelled.) In the setter the validation block is commented
  out, so the setter consists of the \<^verbatim>\<open>setattr\<close> alone and reads neither the schema
  nor the configuration.
\<close>

definition private_name :: "'v PropertyInfo \<Rightarrow> string" where
  "private_name prop = ''_'' @ prop_name prop"

definition direct_getter :: "'v PropertyInfo \<Rightarrow> (string \<rightharpoonup> 'v) \<Rightarrow> 'v option" where
  "direct_getter prop attrs =
     (case attrs (private_name prop) of None \<Rightarrow> prop_default prop | Some val \<Rightarrow> Some val)"

definition direct_setter ::
  "xEntityConfig \<Rightarrow> 'v PropertyInfo \<Rightarrow> (string \<rightharpoonup> 'v) \<Rightarrow> 'v \<Rightarrow> error + (string \<rightharpoonup> 'v)" where
  "direct_setter config prop attrs val = Inr (attrs(private_name prop \<mapsto> val))"

text \<open>
  \<^verbatim>\<open>MemoryModeMetaclass._create_delegated_property\<close>: the setter validates when the
  field has a schema and validation is enabled, then writes to the entity's container
  directly. \<open>render\<close> is the formatting of the value inside the message.
\<close>

definition delegated_setter ::
  "('d, 'n, 'v) xData_ops \<Rightarrow> ('v \<Rightarrow> string) \<Rightarrow> xEntityConfig \<Rightarrow> 'v PropertyInfo \<Rightarrow>
   ('d, 'n, 'v, 'a) aEntity \<Rightarrow> 'v \<Rightarrow> (error \<times> ('d, 'n, 'v, 'a) aEntity) + ('d, 'n, 'v, 'a) aEntity" where
  "delegated_setter ops render config prop e val =
     (if (case prop_schema prop of None \<Rightarrow> False
          | Some validate \<Rightarrow> enable_validation config \<and> \<not> validate val)
      then Inl (ValueError (''Validation failed for '' @ prop_name prop @ '': '' @ render val), e)
      else (case xData_set ops (e_data e) (prop_name prop) val of
              Inl err \<Rightarrow> Inl (err, e)
            | Inr d \<Rightarrow> Inr (e\<lparr> e_data := d \<rparr>)))"

section \<open>The lifecycle table as the specification words it\<close>

text \<open>
  The allowed targets of each state, as the specification lists them:
  draft to validated or archived; validated to committed, draft or archived; committed
  to archived; archived to draft. Any other current state allows nothing.
\<close>

definition spec_allowed :: "string \<Rightarrow> string set" where
  "spec_allowed current =
     (if current = ''draft'' then {''validated'', ''archived''}
      else if current = ''validated'' then {''committed'', ''draft'', ''archived''}
      else if current = ''committed'' then {''archived''}
      else if current = ''archived'' then {''draft''}
      else {})"

section \<open>Sequences of calls\<close>

text \<open>
  A client's call of one mutating method of the facade, with the clock reading (for
  \<^verbatim>\<open>update\<close>: the readings, one per pair) the call would take.
\<close>

datatype 'v call =
    CallSet string 'v int
  | CallDelete string int
  | CallUpdate "(string \<times> 'v) list" "nat \<Rightarrow> int"
  | CallTransition string int






section \<open>Concrete collaborators for worked examples\<close>

text \<open>
  A container that is an association list of integer fields: \<^verbatim>\<open>set\<close> refuses the
  empty path, \<^verbatim>\<open>delete\<close> refuses a path that is not there.
\<close>

definition list_store :: "((string \<times> int) list, (string \<times> int) list, int) xData_ops" where
  "list_store =
     \<lparr> xData_new = (\<lambda>n. n),
       native_empty = [],
       xData_set = (\<lambda>d p v. if p = [] then Inl (StoreError ''empty path'')
                              else Inr (filter (\<lambda>kv. fst kv \<noteq> p) d @ [(p, v)])),
       xData_delete = (\<lambda>d p. if p \<in> set (map fst d) then Inr (filter (\<lambda>kv. fst kv \<noteq> p) d)
                              else Inl (StoreError ''no such path'')),
       xData_to_native = (\<lambda>d. d) \<rparr>"

definition drawn0 :: drawn where
  "drawn0 = \<lparr> drawn_uuid = ''u1'', drawn_now1 = 10, drawn_now2 = 11 \<rparr>"

definition drawn1 :: drawn where
  "drawn1 = \<lparr> drawn_uuid = ''u2'', drawn_now1 = 30, drawn_now2 = 31 \<rparr>"

definition drawn2 :: drawn where
  "drawn2 = \<lparr> drawn_uuid = ''u3'', drawn_now1 = 32, drawn_now2 = 33 \<rparr>"

text \<open>A schema that accepts a mapping when its \<^verbatim>\<open>age\<close>, if present, is at most 150.\<close>

definition age_schema :: "(string \<times> int) list xSchema" where
  "age_schema =
     \<lparr> schema_value = None, schema_version = None,
       validate_data = (\<lambda>n. case map_of n ''age'' of None \<Rightarrow> True | Some a \<Rightarrow> a \<le> 150) \<rparr>"

definition entity0 :: "((string \<times> int) list, (string \<times> int) list, int, unit) aEntity" where
  "entity0 = aEntity_init list_store None NoData None drawn0"

definition entity_ok :: "((string \<times> int) list, (string \<times> int) list, int, unit) aEntity" where
  "entity_ok = aEntity_init list_store (Some age_schema) (DictData [(''age'', 30)]) None drawn0"

definition entity_bad :: "((string \<times> int) list, (string \<times> int) list, int, unit) aEntity" where
  "entity_bad = aEntity_init list_store (Some age_schema) (DictData [(''age'', 200)]) None drawn0"

text \<open>An entity with one registered action, and foreign action code that changes the entity.\<close>

definition entity_greeter :: "((string \<times> int) list, (string \<times> int) list, int, unit) aEntity" where
  "entity_greeter = entity0\<lparr> e_actions := [(''greet'', ())] \<rparr>"

definition call_bump ::
  "unit \<Rightarrow> ((string \<times> int) list, (string \<times> int) list, int, unit) aEntity \<Rightarrow> unit \<Rightarrow>
   (error \<times> ((string \<times> int) list, (string \<times> int) list, int, unit) aEntity) +
   (int \<times> ((string \<times> int) list, (string \<times> int) list, int, unit) aEntity)" where
  "call_bump action e kwargs =
     Inr (7, e\<lparr> e_metadata := update_version 99 (e_metadata e) \<rparr>)"

text \<open>
  The fresh entity after \<^verbatim>\<open>set("a", 1)\<close> at time 20, and the same entity validated,
  tagged and annotated.
\<close>

definition entity_a :: "((string \<times> int) list, (string \<times> int) list, int, unit) aEntity" where
  "entity_a = entity0\<lparr> e_data := [(''a'', 1)],
                       e_metadata := update_version 20 (e_metadata entity0) \<rparr>"

definition entity_tagged :: "((string \<times> int) list, (string \<times> int) list, int, unit) aEntity" where
  "entity_tagged =
     entity_a\<lparr> e_metadata := (e_metadata entity_a)\<lparr> md_state := VALIDATED, md_version := 3,
                    md_tags := [''vip''], md_metadata := [(''owner'', 7)] \<rparr> \<rparr>"

text \<open>A client that puts the pairs into the cache one after the other.\<close>

fun put_all ::
  "'v xEntityCache \<Rightarrow> (string \<times> 'v) list \<Rightarrow> (error \<times> 'v xEntityCache) + 'v xEntityCache" where
  "put_all c [] = Inr c"
| "put_all c ((key, val) # rest) =
     (case xEntityCache_put c key val of
        Inl x \<Rightarrow> Inl x
      | Inr c' \<Rightarrow> put_all c' rest)"




text \<open>
  A field \<^verbatim>\<open>age\<close> whose schema accepts 0 to 150, and a configuration with validation
  enabled.
\<close>

definition age_prop :: "int PropertyInfo" where
  "age_prop = \<lparr> prop_name = ''age'', prop_schema = Some (\<lambda>v. 0 \<le> v \<and> v \<le> 150),
                prop_default = None \<rparr>"

definition validating :: xEntityConfig where
  "validating = \<lparr> enable_validation = True \<rparr>"



section \<open>Shared facts\<close>

lemmas state_names = DRAFT_def VALIDATED_def COMMITTED_def ARCHIVED_def

text \<open>The code's table and the specification's table allow the same transitions.\<close>

lemma can_transition_iff:
  "aEntity_can_transition_to e target \<longleftrightarrow> target \<in> spec_allowed (md_state (e_metadata e))"
  by (simp add: aEntity_can_transition_to_def state_transitions_def spec_allowed_def state_names)

lemma entity0_state: "md_state (e_metadata entity0) = ''draft''"
  by (simp add: entity0_def aEntity_init_def xEntityMetadata_init_def DRAFT_def)

lemma validate_fst:
  "fst (aEntity_validate ops e) =
     (case e_schema e of None \<Rightarrow> True
      | Some s \<Rightarrow> validate_data s (xData_to_native ops (e_data e)))"
  by (simp add: aEntity_validate_def Let_def split: option.splits)

lemma validate_snd:
  "snd (aEntity_validate ops e) =
     e\<lparr> e_performance_stats :=
          (e_performance_stats e)\<lparr> validation_count :=
             validation_count (e_performance_stats e) + 1 \<rparr> \<rparr>"
  by (simp add: aEntity_validate_def Let_def split: option.splits)

lemma entity_bad_simps:
  "md_state (e_metadata entity_bad) = ''draft''"
  "md_version (e_metadata entity_bad) = 1"
  "e_schema entity_bad = Some age_schema"
  "e_data entity_bad = [(''age'', 200)]"
  by (simp_all add: entity_bad_def aEntity_init_def xEntityMetadata_init_def DRAFT_def list_store_def)

lemma entity_ok_simps:
  "md_state (e_metadata entity_ok) = ''draft''"
  "md_version (e_metadata entity_ok) = 1"
  "e_schema entity_ok = Some age_schema"
  "e_data entity_ok = [(''age'', 30)]"
  by (simp_all add: entity_ok_def aEntity_init_def xEntityMetadata_init_def DRAFT_def list_store_def)

lemma entity0_schema: "e_schema entity0 = None"
  by (simp add: entity0_def aEntity_init_def)

lemma set_raises_same: "aEntity_set ops now e path val = Inl (err, e2) \<Longrightarrow> e2 = e"
  by (cases "xData_set ops (e_data e) path val") (simp_all add: aEntity_set_def)

lemma update_append:
  "aEntity_update ops nows e (xs @ ys) =
     (case aEntity_update ops nows e xs of
        Inl x \<Rightarrow> Inl x
      | Inr e1 \<Rightarrow> aEntity_update ops (\<lambda>i. nows (length xs + i)) e1 ys)"
proof (induction xs arbitrary: nows e)
  case Nil
  then show ?case by simp
next
  case (Cons x xs)
  obtain path val where x: "x = (path, val)" by (cases x)
  show ?case
  proof (cases "aEntity_set ops (nows 0) e path val")
    case (Inl a)
    then show ?thesis by (simp add: x)
  next
    case (Inr e')
    have "aEntity_update ops nows e ((x # xs) @ ys) =
          aEntity_update ops (\<lambda>i. nows (Suc i)) e' (xs @ ys)"
      using Inr by (simp add: x)
    also have "\<dots> = (case aEntity_update ops (\<lambda>i. nows (Suc i)) e' xs of
        Inl x \<Rightarrow> Inl x
      | Inr e1 \<Rightarrow> aEntity_update ops (\<lambda>i. nows (Suc (length xs + i))) e1 ys)"
      by (rule Cons.IH)
    also have "\<dots> = (case aEntity_update ops nows e (x # xs) of
        Inl x \<Rightarrow> Inl x
      | Inr e1 \<Rightarrow> aEntity_update ops (\<lambda>i. nows (length (x # xs) + i)) e1 ys)"
      using Inr by (simp add: x cong: sum.case_cong)
    finally show ?thesis .
  qed
qed

lemma entity0_simps:
  "e_data entity0 = []" "e_cache entity0 = []" "e_schema_cache entity0 = None"
  by (simp_all add: entity0_def aEntity_init_def list_store_def)

lemma clear_cache_entity0:
  "aEntity_clear_cache (entity0\<lparr> e_data := d, e_metadata := m \<rparr>) =
   entity0\<lparr> e_data := d, e_metadata := m \<rparr>"
  by (simp add: aEntity_clear_cache_def entity0_def aEntity_init_def)

lemma set_a: "aEntity_set list_store 20 entity0 ''a'' 1 = Inr entity_a"
  by (simp add: aEntity_set_def list_store_def entity0_simps clear_cache_entity0 entity_a_def)

lemma update_a: "xEntity_update list_store (\<lambda>i. 20 + int i) entity0 [(''a'', 1)] = Inr entity_a"
  by (simp add: xEntity_update_def set_a)

lemma set_empty_path:
  "xEntity_set list_store (20 + int (length [(''a'', 1::int)])) entity_a [] 2 =
     Inl (StoreError ''empty path'', entity_a)"
  by (simp add: xEntity_set_def aEntity_set_def list_store_def)

lemma entity_a_simps:
  "md_version (e_metadata entity_a) = 2" "e_data entity_a = [(''a'', 1)]"
  by (simp_all add: entity_a_def update_version_def entity0_def aEntity_init_def
      xEntityMetadata_init_def)

lemma entity_tagged_simps:
  "e_data entity_tagged = [(''a'', 1)]"
  "md_state (e_metadata entity_tagged) = ''validated''"
  "md_version (e_metadata entity_tagged) = 3"
  "md_tags (e_metadata entity_tagged) = [''vip'']"
  "md_metadata (e_metadata entity_tagged) = [(''owner'', 7)]"
  "md_id (e_metadata entity_tagged) = ''u1''"
  by (simp_all add: entity_tagged_def entity_a_def VALIDATED_def update_version_def
      entity0_def aEntity_init_def xEntityMetadata_init_def drawn0_def)

lemma list_store_simps:
  "xData_to_native list_store d = d" "xData_new list_store n = n"
  by (simp_all add: list_store_def)

section \<open>Refused transitions\<close>

text \<open>
  Claim C1. Whatever the entity and the target state: when the target is not among the
  states the specification's table allows after the entity's current state,
  \<^verbatim>\<open>_transition_to\<close> raises \<^verbatim>\<open>xEntityStateError\<close> carrying the current and the
  target state, and leaves the whole entity, so also its state, version and
  \<^verbatim>\<open>updated_at\<close>, as it was.
\<close>

theorem transition_not_allowed_raises:
  assumes "target \<notin> spec_allowed (md_state (e_metadata e))"
  shows "aEntity_transition_to ops now e target =
         Inl (xEntityStateError (md_state (e_metadata e)) target ''Transition not allowed'', e)"
  using assms by (simp add: aEntity_transition_to_def can_transition_iff)

text \<open>A fresh entity is a draft and cannot be committed.\<close>

theorem transition_not_allowed_raises_witness:
  "COMMITTED \<notin> spec_allowed (md_state (e_metadata entity0)) \<and>
   aEntity_transition_to list_store 12 entity0 COMMITTED =
     Inl (xEntityStateError ''draft'' ''committed'' ''Transition not allowed'', entity0)"
proof -
  have h: "COMMITTED \<notin> spec_allowed (md_state (e_metadata entity0))"
    by (simp add: entity0_state spec_allowed_def COMMITTED_def)
  show ?thesis
    using h transition_not_allowed_raises [OF h, of list_store 12] entity0_state
    by (simp add: COMMITTED_def)
qed

section \<open>Validation before the transition to validated\<close>

text \<open>
  Claim C2. For an entity whose current state allows the transition to validated:
  \<^verbatim>\<open>_transition_to(VALIDATED)\<close> returns exactly when the validation pass
  \<^verbatim>\<open>_validate\<close> answers true, and that answer is true without a schema and the
  schema's verdict on the exported field data otherwise. When the pass succeeds, the
  call returns the entity in state validated, with the version raised by 1,
  \<^verbatim>\<open>updated_at\<close> set to the clock reading and the data as they were; whenever the
  call returns, that is the entity it returns. When the pass fails, the call raises
  \<^verbatim>\<open>xEntityStateError\<close> with the current state, the target and the reason
  "Validation failed", and the entity it leaves has the metadata (state, version,
  timestamps) and the data it had; only the validation counter has advanced.
\<close>

theorem to_validated_iff_validation:
  assumes "VALIDATED \<in> spec_allowed (md_state (e_metadata e))"
  shows "((\<exists>e'. aEntity_transition_to ops now e VALIDATED = Inr e') \<longleftrightarrow>
            fst (aEntity_validate ops e)) \<and>
         fst (aEntity_validate ops e) =
           (case e_schema e of None \<Rightarrow> True
            | Some s \<Rightarrow> validate_data s (xData_to_native ops (e_data e))) \<and>
         (fst (aEntity_validate ops e) \<longrightarrow>
            aEntity_transition_to ops now e VALIDATED =
              Inr ((snd (aEntity_validate ops e))
                     \<lparr> e_metadata :=
                         (e_metadata e)\<lparr> md_state := VALIDATED,
                                          md_version := md_version (e_metadata e) + 1,
                                          md_updated_at := now \<rparr> \<rparr>)) \<and>
         (\<forall>e'. aEntity_transition_to ops now e VALIDATED = Inr e' \<longrightarrow>
            md_state (e_metadata e') = VALIDATED \<and>
            md_version (e_metadata e') = md_version (e_metadata e) + 1 \<and>
            md_updated_at (e_metadata e') = now \<and>
            md_created_at (e_metadata e') = md_created_at (e_metadata e) \<and>
            md_id (e_metadata e') = md_id (e_metadata e) \<and>
            e_data e' = e_data e) \<and>
         (\<not> fst (aEntity_validate ops e) \<longrightarrow>
            aEntity_transition_to ops now e VALIDATED =
              Inl (xEntityStateError (md_state (e_metadata e)) VALIDATED ''Validation failed'',
                   snd (aEntity_validate ops e)) \<and>
            e_metadata (snd (aEntity_validate ops e)) = e_metadata e \<and>
            e_data (snd (aEntity_validate ops e)) = e_data e)"
proof -
  have can: "aEntity_can_transition_to e VALIDATED"
    using assms by (simp add: can_transition_iff)
  obtain b e1 where v: "aEntity_validate ops e = (b, e1)"
    by (cases "aEntity_validate ops e")
  have e1: "e1 = snd (aEntity_validate ops e)" using v by simp
  have md: "e_metadata e1 = e_metadata e" "e_data e1 = e_data e"
    unfolding e1 validate_snd by simp_all
  have vf: "fst (aEntity_validate ops e) =
           (case e_schema e of None \<Rightarrow> True
            | Some s \<Rightarrow> validate_data s (xData_to_native ops (e_data e)))"
    by (rule validate_fst)
  show ?thesis
  proof (cases b)
    case True
    have r: "aEntity_transition_to ops now e VALIDATED =
             Inr (e1\<lparr> e_metadata :=
                       (e_metadata e)\<lparr> md_state := VALIDATED,
                                        md_version := md_version (e_metadata e) + 1,
                                        md_updated_at := now \<rparr> \<rparr>)"
      using True can v md by (simp add: aEntity_transition_to_def update_version_def)
    have b: "fst (aEntity_validate ops e)" using True v by simp
    have s1: "(\<exists>e'. aEntity_transition_to ops now e VALIDATED = Inr e') \<longleftrightarrow>
              fst (aEntity_validate ops e)"
      using r b by simp
    have s3: "aEntity_transition_to ops now e VALIDATED =
              Inr ((snd (aEntity_validate ops e))
                     \<lparr> e_metadata :=
                         (e_metadata e)\<lparr> md_state := VALIDATED,
                                          md_version := md_version (e_metadata e) + 1,
                                          md_updated_at := now \<rparr> \<rparr>)"
      using r e1 by simp
    have s4: "\<forall>e'. aEntity_transition_to ops now e VALIDATED = Inr e' \<longrightarrow>
            md_state (e_metadata e') = VALIDATED \<and>
            md_version (e_metadata e') = md_version (e_metadata e) + 1 \<and>
            md_updated_at (e_metadata e') = now \<and>
            md_created_at (e_metadata e') = md_created_at (e_metadata e) \<and>
            md_id (e_metadata e') = md_id (e_metadata e) \<and>
            e_data e' = e_data e"
      using r md by simp
    show ?thesis using s1 vf s3 s4 b by blast
  next
    case False
    have r: "aEntity_transition_to ops now e VALIDATED =
             Inl (xEntityStateError (md_state (e_metadata e)) VALIDATED ''Validation failed'', e1)"
      using False can v md by (simp add: aEntity_transition_to_def)
    have b: "\<not> fst (aEntity_validate ops e)" using False v by simp
    have s1: "(\<exists>e'. aEntity_transition_to ops now e VALIDATED = Inr e') \<longleftrightarrow>
              fst (aEntity_validate ops e)"
      using r b by simp
    have s4: "\<forall>e'. aEntity_transition_to ops now e VALIDATED = Inr e' \<longrightarrow>
            md_state (e_metadata e') = VALIDATED \<and>
            md_version (e_metadata e') = md_version (e_metadata e) + 1 \<and>
            md_updated_at (e_metadata e') = now \<and>
            md_created_at (e_metadata e') = md_created_at (e_metadata e) \<and>
            md_id (e_metadata e') = md_id (e_metadata e) \<and>
            e_data e' = e_data e"
      using r by simp
    have s5: "aEntity_transition_to ops now e VALIDATED =
              Inl (xEntityStateError (md_state (e_metadata e)) VALIDATED ''Validation failed'',
                   snd (aEntity_validate ops e)) \<and>
            e_metadata (snd (aEntity_validate ops e)) = e_metadata e \<and>
            e_data (snd (aEntity_validate ops e)) = e_data e"
      using r md e1 by simp
    show ?thesis using s1 vf s4 s5 b by blast
  qed
qed

text \<open>
  An entity whose age of 200 the schema rejects stays a draft at version 1; one whose
  age is 30 is accepted and comes back validated at version 2, updated at the clock
  reading 12, with its data.
\<close>

theorem to_validated_iff_validation_witness:
  "VALIDATED \<in> spec_allowed (md_state (e_metadata entity_bad)) \<and>
   \<not> fst (aEntity_validate list_store entity_bad) \<and>
   aEntity_transition_to list_store 12 entity_bad VALIDATED =
     Inl (xEntityStateError ''draft'' ''validated'' ''Validation failed'',
          snd (aEntity_validate list_store entity_bad)) \<and>
   md_state (e_metadata (snd (aEntity_validate list_store entity_bad))) = ''draft'' \<and>
   md_version (e_metadata (snd (aEntity_validate list_store entity_bad))) = 1 \<and>
   VALIDATED \<in> spec_allowed (md_state (e_metadata entity_ok)) \<and>
   fst (aEntity_validate list_store entity_ok) \<and>
   (\<exists>e'. aEntity_transition_to list_store 12 entity_ok VALIDATED = Inr e' \<and>
         md_state (e_metadata e') = ''validated'' \<and>
         md_version (e_metadata e') = 2 \<and>
         md_updated_at (e_metadata e') = 12 \<and>
         e_data e' = [(''age'', 30)])"
proof -
  have hb: "VALIDATED \<in> spec_allowed (md_state (e_metadata entity_bad))"
    by (simp add: entity_bad_simps spec_allowed_def VALIDATED_def)
  have ho: "VALIDATED \<in> spec_allowed (md_state (e_metadata entity_ok))"
    by (simp add: entity_ok_simps spec_allowed_def VALIDATED_def)
  have vb: "\<not> fst (aEntity_validate list_store entity_bad)"
    by (simp add: validate_fst entity_bad_simps age_schema_def list_store_def)
  have vo: "fst (aEntity_validate list_store entity_ok)"
    by (simp add: validate_fst entity_ok_simps age_schema_def list_store_def)
  note B = to_validated_iff_validation [OF hb, of list_store 12]
  note K = to_validated_iff_validation [OF ho, of list_store 12]
  have bad: "aEntity_transition_to list_store 12 entity_bad VALIDATED =
     Inl (xEntityStateError ''draft'' ''validated'' ''Validation failed'',
          snd (aEntity_validate list_store entity_bad)) \<and>
   md_state (e_metadata (snd (aEntity_validate list_store entity_bad))) = ''draft'' \<and>
   md_version (e_metadata (snd (aEntity_validate list_store entity_bad))) = 1"
    using B vb by (simp add: entity_bad_simps VALIDATED_def)
  obtain e' where r: "aEntity_transition_to list_store 12 entity_ok VALIDATED = Inr e'"
    using K vo by blast
  have "md_state (e_metadata e') = VALIDATED \<and>
        md_version (e_metadata e') = md_version (e_metadata entity_ok) + 1 \<and>
        md_updated_at (e_metadata e') = 12 \<and> e_data e' = e_data entity_ok"
    using K r by blast
  then have ok: "md_state (e_metadata e') = ''validated'' \<and> md_version (e_metadata e') = 2 \<and>
            md_updated_at (e_metadata e') = 12 \<and> e_data e' = [(''age'', 30)]"
    by (simp add: entity_ok_simps VALIDATED_def)
  show ?thesis using hb ho vb vo bad r ok by blast
qed

section \<open>Dispatch to an unregistered action\<close>

text \<open>
  Claim C9. For every entity and every action name that is not a key of the entity's
  action table, \<^verbatim>\<open>execute_action\<close> raises \<^verbatim>\<open>xEntityActionError(name, "Action not
  registered")\<close>, the error this code has for an action that is not found. The result
  does not depend on the action code \<open>call\<close>, so no action body runs, and the entity
  is left as it was.
\<close>

theorem execute_unregistered_action_raises:
  assumes "action_name \<notin> set (map fst (e_actions e))"
  shows "xEntity_execute_action call e action_name kwargs =
         Inl (xEntityActionError action_name ''Action not registered'', e)"
proof -
  have "map_of (e_actions e) action_name = None"
    using assms by (simp add: map_of_eq_None_iff)
  then show ?thesis
    by (simp add: xEntity_execute_action_def aEntity_execute_action_def)
qed

text \<open>
  An entity that registers \<^verbatim>\<open>greet\<close> only, asked for \<^verbatim>\<open>missing-action\<close>, with
  action code that would change the version if it ran.
\<close>

theorem execute_unregistered_action_raises_witness:
  "''missing-action'' \<notin> set (map fst (e_actions entity_greeter)) \<and>
   xEntity_execute_action call_bump entity_greeter ''missing-action'' () =
     Inl (xEntityActionError ''missing-action'' ''Action not registered'', entity_greeter)"
proof -
  have h: "''missing-action'' \<notin> set (map fst (e_actions entity_greeter))"
    by (simp add: entity_greeter_def)
  show ?thesis
    using h execute_unregistered_action_raises [OF h, of call_bump "()"] by simp
qed

section \<open>Validation without a schema\<close>

text \<open>
  Claim C10. For every entity without a schema, whatever its field data,
  \<^verbatim>\<open>validate()\<close> returns true and \<^verbatim>\<open>validate_or_raise()\<close> returns without
  raising; both leave the entity that \<^verbatim>\<open>_validate\<close> leaves.
\<close>

theorem validate_without_schema:
  assumes "e_schema e = None"
  shows "fst (xEntity_validate ops e) = True \<and>
         xEntity_validate_or_raise ops e = Inr (snd (xEntity_validate ops e))"
proof -
  obtain b e1 where v: "aEntity_validate ops e = (b, e1)"
    by (cases "aEntity_validate ops e")
  have "b" using assms validate_fst [of ops e] v by simp
  then show ?thesis
    using v by (simp add: xEntity_validate_def xEntity_validate_or_raise_def)
qed

text \<open>The fresh entity without a schema.\<close>

theorem validate_without_schema_witness:
  "e_schema entity0 = None \<and> fst (xEntity_validate list_store entity0) = True \<and>
   xEntity_validate_or_raise list_store entity0 = Inr (snd (xEntity_validate list_store entity0))"
  using entity0_schema validate_without_schema [OF entity0_schema, of list_store]
  by simp

section \<open>Batch update\<close>

text \<open>
  Claim C8. \<^verbatim>\<open>update(mapping)\<close> applies the pairs through \<^verbatim>\<open>set\<close> in iteration
  order and is not atomic. Let the pairs \<open>before\<close> have been applied, leaving \<open>e1\<close>.
  Then updating with one more pair is the \<^verbatim>\<open>set\<close> of that pair on \<open>e1\<close>; and when
  that \<^verbatim>\<open>set\<close> raises, the update of \<open>before\<close>, the pair and any pairs \<open>after\<close>
  raises the same error and leaves exactly \<open>e1\<close>: the earlier pairs stay applied, the
  failing pair and the later ones are not applied.
\<close>

theorem update_in_order_not_atomic:
  assumes "xEntity_update ops nows e before = Inr e1"
  shows "xEntity_update ops nows e (before @ [(path, val)]) =
           xEntity_set ops (nows (length before)) e1 path val \<and>
         (\<forall>err e2. xEntity_set ops (nows (length before)) e1 path val = Inl (err, e2) \<longrightarrow>
            e2 = e1 \<and>
            xEntity_update ops nows e (before @ (path, val) # after) = Inl (err, e1))"
proof -
  have b: "aEntity_update ops nows e before = Inr e1"
    using assms by (simp add: xEntity_update_def)
  have one: "aEntity_update ops nows e (before @ [(path, val)]) =
             aEntity_set ops (nows (length before)) e1 path val"
    unfolding update_append b
    by (cases "aEntity_set ops (nows (length before)) e1 path val") simp_all
  have fail: "e2 = e1 \<and> aEntity_update ops nows e (before @ (path, val) # after) = Inl (err, e1)"
    if f: "aEntity_set ops (nows (length before)) e1 path val = Inl (err, e2)" for err e2
  proof -
    have eq: "e2 = e1" using f by (rule set_raises_same)
    have "aEntity_update ops nows e (before @ (path, val) # after) = Inl (err, e2)"
      unfolding update_append b using f by simp
    then show ?thesis using eq by simp
  qed
  show ?thesis
    unfolding xEntity_update_def xEntity_set_def
    using one fail by blast
qed

text \<open>
  Updating the fresh entity with \<^verbatim>\<open>a\<close>, then the empty path (which the container
  refuses), then \<^verbatim>\<open>c\<close>: the error comes back, \<^verbatim>\<open>a\<close> is stored at version 2 and
  \<^verbatim>\<open>c\<close> is not.
\<close>

theorem update_in_order_not_atomic_witness:
  "xEntity_update list_store (\<lambda>i. 20 + int i) entity0 [(''a'', 1)] = Inr entity_a \<and>
   xEntity_set list_store 21 entity_a [] 2 = Inl (StoreError ''empty path'', entity_a) \<and>
   xEntity_update list_store (\<lambda>i. 20 + int i) entity0 [(''a'', 1), ([], 2), (''c'', 3)] =
     Inl (StoreError ''empty path'', entity_a) \<and>
   e_data entity_a = [(''a'', 1)] \<and> md_version (e_metadata entity_a) = 2"
proof -
  have "xEntity_update list_store (\<lambda>i. 20 + int i) entity0 ([(''a'', 1)] @ ([], 2) # [(''c'', 3)]) =
        Inl (StoreError ''empty path'', entity_a)"
    using update_in_order_not_atomic [OF update_a, of "[]" 2 "[(''c'', 3)]"] set_empty_path
    by blast
  then show ?thesis
    using update_a set_empty_path entity_a_simps by simp
qed

section \<open>Snapshot round trip\<close>

text \<open>
  Claim C7. Building an entity from the exported snapshot of an entity \<open>e\<close>,
  \<^verbatim>\<open>from_dict(to_dict(e))\<close>, gives an entity whose state, version, tags and metadata
  mapping are those of \<open>e\<close> and whose container is \<^verbatim>\<open>xData\<close> of \<open>e\<close>'s exported
  data; so its exported field data equals \<open>e\<close>'s, given that the external container
  exports what it was built from (the premise, a property of \<^verbatim>\<open>xData\<close> and not of
  this package).
\<close>

theorem snapshot_round_trip:
  assumes "xData_to_native ops (xData_new ops (xData_to_native ops (e_data e))) =
           xData_to_native ops (e_data e)"
  shows "(let e' = xEntity_from_dict ops (xEntity_to_dict ops e) schema dr_init dr_load in
            e_data e' = xData_new ops (xData_to_native ops (e_data e)) \<and>
            xData_to_native ops (e_data e') = xData_to_native ops (e_data e) \<and>
            md_state (e_metadata e') = md_state (e_metadata e) \<and>
            md_version (e_metadata e') = md_version (e_metadata e) \<and>
            md_tags (e_metadata e') = md_tags (e_metadata e) \<and>
            md_metadata (e_metadata e') = md_metadata (e_metadata e))"
  using assms
  by (simp add: xEntity_from_dict_def xEntity_to_dict_def aEntityFactory_from_dict_def
      aEntity_from_dict_def aEntity_to_dict_def xEntityMetadata_from_dict_def
      xEntityMetadata_to_dict_def Let_def)

text \<open>A validated, tagged entity at version 3 with one field, over the list container.\<close>

theorem snapshot_round_trip_witness:
  "xData_to_native list_store
     (xData_new list_store (xData_to_native list_store (e_data entity_tagged))) =
   xData_to_native list_store (e_data entity_tagged) \<and>
   xData_to_native list_store
     (e_data (xEntity_from_dict list_store (xEntity_to_dict list_store entity_tagged)
                None drawn1 drawn2)) = [(''a'', 1)] \<and>
   md_state (e_metadata (xEntity_from_dict list_store (xEntity_to_dict list_store entity_tagged)
                None drawn1 drawn2)) = ''validated'' \<and>
   md_version (e_metadata (xEntity_from_dict list_store (xEntity_to_dict list_store entity_tagged)
                None drawn1 drawn2)) = 3 \<and>
   md_tags (e_metadata (xEntity_from_dict list_store (xEntity_to_dict list_store entity_tagged)
                None drawn1 drawn2)) = [''vip''] \<and>
   md_metadata (e_metadata (xEntity_from_dict list_store (xEntity_to_dict list_store entity_tagged)
                None drawn1 drawn2)) = [(''owner'', 7)]"
proof -
  have h: "xData_to_native list_store
             (xData_new list_store (xData_to_native list_store (e_data entity_tagged))) =
           xData_to_native list_store (e_data entity_tagged)"
    by (simp add: list_store_simps)
  show ?thesis
    using h snapshot_round_trip [OF h, of None drawn1 drawn2]
    by (simp add: Let_def entity_tagged_simps list_store_simps)
qed

section \<open>The entity cache\<close>

subsection \<open>Facts about the ordered dictionary and the two operations\<close>

lemma map_of_last:
  "key \<notin> fst ` set ys \<Longrightarrow> map_of (ys @ [(key, val)]) key = Some val"
  by (induction ys) auto

lemma filter_absent: "key \<notin> fst ` set ys \<Longrightarrow> filter (\<lambda>kv. fst kv \<noteq> key) ys = ys"
  by (induction ys) auto

lemma setitem_lookup: "map_of (od_setitem od key val) key = Some val"
proof (cases "od_contains od key")
  case True
  then have "key \<in> fst ` set od" by (simp add: od_contains_def)
  then have "map_of (map (\<lambda>kv. if fst kv = key then (key, val) else kv) od) key = Some val"
    by (induction od) auto
  then show ?thesis using True by (simp add: od_setitem_def)
next
  case False
  then have "key \<notin> fst ` set od" by (simp add: od_contains_def)
  then show ?thesis using False by (simp add: od_setitem_def map_of_last del: map_of_append)
qed

lemma move_after_setitem:
  "od_move_to_end (od_setitem od key val) key =
     Inr (filter (\<lambda>kv. fst kv \<noteq> key) (od_setitem od key val) @ [(key, val)])"
  by (simp add: od_move_to_end_def setitem_lookup)

lemma put_shape:
  assumes "1 \<le> c_max_size c"
  shows "\<exists>ys. key \<notin> fst ` set ys \<and>
              xEntityCache_put c key val = Inr (c\<lparr> c_cache := ys @ [(key, val)] \<rparr>)"
proof -
  define zs where "zs = filter (\<lambda>kv. fst kv \<noteq> key) (od_setitem (c_cache c) key val)"
  have zs: "key \<notin> fst ` set zs" by (auto simp: zs_def)
  show ?thesis
  proof (cases "int (length (zs @ [(key, val)])) > c_max_size c")
    case False
    then have "xEntityCache_put c key val = Inr (c\<lparr> c_cache := zs @ [(key, val)] \<rparr>)"
      by (simp add: xEntityCache_put_def xEntityCache_put_impl_def Let_def
          move_after_setitem zs_def)
    then show ?thesis using zs by blast
  next
    case True
    then have "zs \<noteq> []" using assms by auto
    then obtain z zs' where z: "zs = z # zs'" by (cases zs) auto
    have "xEntityCache_put c key val = Inr (c\<lparr> c_cache := zs' @ [(key, val)] \<rparr>)"
      using True z
      by (simp add: xEntityCache_put_def xEntityCache_put_impl_def Let_def
          move_after_setitem zs_def [symmetric] od_popitem_first_def)
    moreover have "key \<notin> fst ` set zs'" using zs z by auto
    ultimately show ?thesis by blast
  qed
qed

lemma move_last:
  "key \<notin> fst ` set ys \<Longrightarrow>
   od_move_to_end (ys @ [(key, val)]) key = Inr (ys @ [(key, val)])"
  by (simp add: od_move_to_end_def map_of_last filter_absent del: map_of_append)

lemma getitem_last:
  "key \<notin> fst ` set ys \<Longrightarrow> od_getitem (ys @ [(key, val)]) key = Inr val"
  by (simp add: od_getitem_def map_of_last del: map_of_append)

lemma get_last:
  assumes "key \<notin> fst ` set ys"
  shows "xEntityCache_get (c\<lparr> c_cache := ys @ [(key, val)] \<rparr>) key =
         Inr (Some val, c\<lparr> c_cache := ys @ [(key, val)], c_hit_count := c_hit_count c + 1 \<rparr>)"
proof -
  have "od_contains (ys @ [(key, val)]) key" by (simp add: od_contains_def)
  then show ?thesis
    by (simp add: xEntityCache_get_def xEntityCache_get_impl_def Let_def
        move_last [OF assms] getitem_last [OF assms])
qed

lemma put_then_get_hits:
  assumes "1 \<le> c_max_size c"
  shows "\<exists>c1 c2. xEntityCache_put c key val = Inr c1 \<and>
                 xEntityCache_get c1 key = Inr (Some val, c2) \<and>
                 c_hit_count c2 = c_hit_count c + 1 \<and>
                 c_miss_count c2 = c_miss_count c"
proof -
  obtain ys where ys: "key \<notin> fst ` set ys"
    and put: "xEntityCache_put c key val = Inr (c\<lparr> c_cache := ys @ [(key, val)] \<rparr>)"
    using put_shape [OF assms] by blast
  show ?thesis
    using put get_last [OF ys, of val c] by simp
qed

lemma popitem_nonempty: "od \<noteq> [] \<Longrightarrow> od_popitem_first od = Inr (tl od)"
  by (cases od) (simp_all add: od_popitem_first_def)

lemma put_fresh:
  assumes "key \<notin> fst ` set (c_cache c)"
  shows "xEntityCache_put c key val =
     (if int (length (c_cache c)) + 1 > c_max_size c
      then Inr (c\<lparr> c_cache := tl (c_cache c @ [(key, val)]) \<rparr>)
      else Inr (c\<lparr> c_cache := c_cache c @ [(key, val)] \<rparr>))"
proof -
  have s: "od_setitem (c_cache c) key val = c_cache c @ [(key, val)]"
    using assms by (simp add: od_setitem_def od_contains_def)
  have m: "od_move_to_end (c_cache c @ [(key, val)]) key = Inr (c_cache c @ [(key, val)])"
    using assms by (rule move_last)
  have p: "od_popitem_first (c_cache c @ [(key, val)]) = Inr (tl (c_cache c @ [(key, val)]))"
    by (rule popitem_nonempty) simp
  show ?thesis
    by (simp add: xEntityCache_put_def xEntityCache_put_impl_def Let_def s m p)
qed

lemma put_three_bound_two:
  assumes "k1 \<noteq> k2" "k1 \<noteq> k3" "k2 \<noteq> k3"
  shows "put_all (xEntityCache_init 2) [(k1, v1), (k2, v2), (k3, v3)] =
         Inr ((xEntityCache_init 2)\<lparr> c_cache := [(k2, v2), (k3, v3)] \<rparr>)"
proof -
  let ?c0 = "xEntityCache_init 2 :: 'a xEntityCache"
  have p1: "xEntityCache_put ?c0 k1 v1 = Inr (?c0\<lparr> c_cache := [(k1, v1)] \<rparr>)"
    by (simp add: put_fresh xEntityCache_init_def)
  have p2: "xEntityCache_put (?c0\<lparr> c_cache := [(k1, v1)] \<rparr>) k2 v2 =
            Inr (?c0\<lparr> c_cache := [(k1, v1), (k2, v2)] \<rparr>)"
    using assms by (simp add: put_fresh xEntityCache_init_def)
  have p3: "xEntityCache_put (?c0\<lparr> c_cache := [(k1, v1), (k2, v2)] \<rparr>) k3 v3 =
            Inr (?c0\<lparr> c_cache := [(k2, v2), (k3, v3)] \<rparr>)"
    using assms by (simp add: put_fresh xEntityCache_init_def)
  show ?thesis by (simp add: p1 p2 p3)
qed

subsection \<open>Put, get and eviction\<close>

text \<open>
  Claim C6, as stated, is false for a cache whose bound is 0: \<^verbatim>\<open>put\<close> stores the
  entry, finds the size 1 above the bound and evicts the oldest entry, which is the one
  just stored; the \<^verbatim>\<open>get\<close> that follows finds nothing and records a miss.
\<close>

theorem put_then_get_misses_at_bound_zero:
  "xEntityCache_put (xEntityCache_init 0) ''a'' (1::int) = Inr (xEntityCache_init 0) \<and>
   xEntityCache_get (xEntityCache_init 0 :: int xEntityCache) ''a'' =
     Inr (None, (xEntityCache_init 0)\<lparr> c_miss_count := 1 \<rparr>)"
  by (simp add: xEntityCache_put_def xEntityCache_put_impl_def xEntityCache_get_def
      xEntityCache_get_impl_def xEntityCache_init_def od_setitem_def od_contains_def
      od_move_to_end_def od_popitem_first_def Let_def)

text \<open>
  Claim C6, amended. For every cache whose bound is at least 1, every key and every
  value, \<^verbatim>\<open>put(k, v)\<close> returns and the \<^verbatim>\<open>get(k)\<close> that follows returns \<open>v\<close>
  and records one hit and no miss. And in an empty cache of bound 2, putting three
  distinct keys leaves the second and the third, in that order: exactly the
  first-inserted key is evicted.
\<close>

theorem cache_put_get_and_lru_eviction:
  "(1 \<le> c_max_size c \<longrightarrow>
      (\<exists>c1 c2. xEntityCache_put c key val = Inr c1 \<and>
                xEntityCache_get c1 key = Inr (Some val, c2) \<and>
                c_hit_count c2 = c_hit_count c + 1 \<and>
                c_miss_count c2 = c_miss_count c)) \<and>
   (k1 \<noteq> k2 \<and> k1 \<noteq> k3 \<and> k2 \<noteq> k3 \<longrightarrow>
      put_all (xEntityCache_init 2) [(k1, v1), (k2, v2), (k3, v3)] =
        Inr ((xEntityCache_init 2)\<lparr> c_cache := [(k2, v2), (k3, v3)] \<rparr>))"
  using put_then_get_hits [of c key val] put_three_bound_two [of k1 k2 k3 v1 v2 v3]
  by blast

text \<open>A cache of bound 1, and the three keys \<^verbatim>\<open>k1\<close>, \<^verbatim>\<open>k2\<close>, \<^verbatim>\<open>k3\<close>.\<close>

theorem cache_put_get_and_lru_eviction_witness:
  "1 \<le> c_max_size (xEntityCache_init 1 :: int xEntityCache) \<and>
   (\<exists>c1 c2. xEntityCache_put (xEntityCache_init 1) ''a'' (5::int) = Inr c1 \<and>
             xEntityCache_get c1 ''a'' = Inr (Some 5, c2) \<and>
             c_hit_count c2 = 1 \<and> c_miss_count c2 = 0) \<and>
   put_all (xEntityCache_init 2) [(''k1'', 1::int), (''k2'', 2), (''k3'', 3)] =
     Inr ((xEntityCache_init 2)\<lparr> c_cache := [(''k2'', 2), (''k3'', 3)] \<rparr>)"
proof -
  have h: "1 \<le> c_max_size (xEntityCache_init 1 :: int xEntityCache)"
    by (simp add: xEntityCache_init_def)
  have d: "''k1'' \<noteq> ''k2'' \<and> ''k1'' \<noteq> ''k3'' \<and> ''k2'' \<noteq> ''k3''" by simp
  have z: "c_hit_count (xEntityCache_init 1 :: int xEntityCache) = 0"
          "c_miss_count (xEntityCache_init 1 :: int xEntityCache) = 0"
    by (simp_all add: xEntityCache_init_def)
  from cache_put_get_and_lru_eviction
         [of "xEntityCache_init 1 :: int xEntityCache" "''a''" 5 "''k1''" "''k2''" "''k3''"
             "1::int" 2 3]
  show ?thesis using h d unfolding z by simp
qed

section \<open>Versions and timestamps\<close>

subsection \<open>What one call does to the metadata\<close>


















subsection \<open>Facts about the worked example\<close>






subsection \<open>The claim\<close>




section \<open>Copying an entity\<close>

text \<open>
  \<^verbatim>\<open>copy\<close> exports the entity with its \<^verbatim>\<open>_metadata\<close> block and rebuilds from that
  export, and \<^verbatim>\<open>from_dict\<close> restores the block: whatever the source entity, the
  schema read and whatever the fresh entity drew, the copy carries the source's id,
  version and state.
\<close>

lemma copy_metadata:
  "md_id (e_metadata (xEntity_copy ops self_schema e dr_init dr_load)) = md_id (e_metadata e) \<and>
   md_version (e_metadata (xEntity_copy ops self_schema e dr_init dr_load)) = md_version (e_metadata e) \<and>
   md_state (e_metadata (xEntity_copy ops self_schema e dr_init dr_load)) = md_state (e_metadata e)"
  by (simp add: xEntity_copy_def xEntity_from_dict_def xEntity_to_dict_def
      aEntityFactory_from_dict_def aEntity_from_dict_def aEntity_to_dict_def
      xEntityMetadata_from_dict_def xEntityMetadata_to_dict_def Let_def)

text \<open>
  Claim C4 says that the copy has an id distinct from the source's, version 1 and state
  draft, with equal field data. Evaluated on a validated entity with id \<^verbatim>\<open>u1\<close> at
  version 3, while the environment offers the new ids \<^verbatim>\<open>u2\<close> and \<^verbatim>\<open>u3\<close>: the
  copy has the id \<^verbatim>\<open>u1\<close>, version 3 and state validated; only the equality of the
  field data holds.
\<close>

theorem copy_repeats_id_version_state:
  "md_id (e_metadata entity_tagged) = ''u1'' \<and>
   md_version (e_metadata entity_tagged) = 3 \<and>
   md_state (e_metadata entity_tagged) = ''validated'' \<and>
   drawn_uuid drawn1 = ''u2'' \<and> drawn_uuid drawn2 = ''u3'' \<and>
   md_id (e_metadata (xEntity_copy list_store None entity_tagged drawn1 drawn2)) = ''u1'' \<and>
   md_version (e_metadata (xEntity_copy list_store None entity_tagged drawn1 drawn2)) = 3 \<and>
   md_state (e_metadata (xEntity_copy list_store None entity_tagged drawn1 drawn2)) = ''validated'' \<and>
   e_data (xEntity_copy list_store None entity_tagged drawn1 drawn2) = e_data entity_tagged"
proof -
  have "e_data (xEntity_copy list_store None entity_tagged drawn1 drawn2) = e_data entity_tagged"
    by (simp add: xEntity_copy_def xEntity_from_dict_def xEntity_to_dict_def
      aEntityFactory_from_dict_def aEntity_from_dict_def aEntity_to_dict_def Let_def
      list_store_simps)
  then show ?thesis
    using copy_metadata [of list_store None entity_tagged drawn1 drawn2]
    by (simp add: entity_tagged_simps drawn1_def drawn2_def)
qed

section \<open>The direct field setter\<close>

text \<open>
  Claim C5 says that the setter of a field under the direct strategy, with validation
  enabled, evaluates the value against the field's schema first, stores it only when
  it passes and signals a validation error otherwise. Evaluated on the field
  \<^verbatim>\<open>age\<close> (0 to 150) with the value 200, validation enabled: the direct setter
  returns with 200 stored in \<^verbatim>\<open>_age\<close>, and the getter reads it back; the delegated
  setter of the same field refuses the same value with \<^verbatim>\<open>ValueError\<close>.
\<close>

theorem direct_setter_stores_rejected_value:
  "enable_validation validating \<and>
   (\<exists>validate. prop_schema age_prop = Some validate \<and> \<not> validate 200) \<and>
   direct_setter validating age_prop Map.empty 200 = Inr [''_age'' \<mapsto> 200] \<and>
   direct_getter age_prop [''_age'' \<mapsto> 200] = Some 200 \<and>
   delegated_setter list_store (\<lambda>v. ''200'') validating age_prop entity0 200 =
     Inl (ValueError ''Validation failed for age: 200'', entity0)"
  by (simp add: validating_def age_prop_def direct_setter_def direct_getter_def private_name_def
      delegated_setter_def)

end
